theory Spec2Isabelle
  imports Main
begin

section \<open>Tensors\<close>

text \<open>
  The heads of \<^verbatim>\<open>src/model/modules/head.py\<close> compute on tensors of the tensor framework.
  A tensor is its shape and its entries in row-major order, as a contiguous tensor is
  stored. The entries are taken from a semiring (the spec's data model calls the arrays
  real-valued): sums and products are exact, rounding is not modelled.
\<close>

record 'a tensor =
  shape :: "nat list"
  data :: "'a list"

text \<open>The failures of the tensor operations and of attribute access, as values.\<close>

datatype error = ShapeMismatch | IndexError | AttributeError

definition tensor_wf :: "'a tensor \<Rightarrow> bool" where
  "tensor_wf t = (length (data t) = prod_list (shape t))"

text \<open>All indices of a shape, in row-major order, and the position of an index in that order.\<close>

definition indices :: "nat list \<Rightarrow> nat list list" where
  "indices s = product_lists (map (\<lambda>n. [0..<n]) s)"

fun offset :: "nat list \<Rightarrow> nat list \<Rightarrow> nat" where
  "offset (n # ns) (i # js) = i * prod_list ns + offset ns js"
| "offset _ _ = 0"

definition valid_index :: "nat list \<Rightarrow> nat list \<Rightarrow> bool" where
  "valid_index s idx = list_all2 (\<lambda>i n. i < n) idx s"

text \<open>\<open>t[idx]\<close>, read for a valid index of a well-formed tensor.\<close>

definition tensor_at :: "'a tensor \<Rightarrow> nat list \<Rightarrow> 'a" where
  "tensor_at t idx = data t ! offset (shape t) idx"

text \<open>The tensor of shape \<open>s\<close> whose entry at \<open>idx\<close> is \<open>f idx\<close>.\<close>

definition tensor_of :: "nat list \<Rightarrow> (nat list \<Rightarrow> 'a) \<Rightarrow> 'a tensor" where
  "tensor_of s f = \<lparr>shape = s, data = map f (indices s)\<rparr>"

text \<open>\<^verbatim>\<open>torch.zeros(s)\<close>.\<close>

definition zeros :: "nat list \<Rightarrow> 'a::zero tensor" where
  "zeros s = \<lparr>shape = s, data = replicate (prod_list s) 0\<rparr>"

text \<open>
  A dimension argument \<open>d\<close> of a tensor of rank \<open>r\<close> is in \<open>[-r, r - 1]\<close>, a negative one
  counting from the end; anything else raises ("Dimension out of range"). A tensor of
  rank 0 takes the dimensions of one of rank 1.
\<close>

definition norm_dim :: "nat \<Rightarrow> int \<Rightarrow> error + nat" where
  "norm_dim r d =
     (let n = int (max r 1) in
      if d < - n \<or> n \<le> d then Inl IndexError
      else Inr (nat (if d < 0 then d + n else d)))"

definition swap_dims :: "nat \<Rightarrow> nat \<Rightarrow> 'b list \<Rightarrow> 'b list" where
  "swap_dims p q xs = xs[p := xs ! q, q := xs ! p]"

text \<open>\<^verbatim>\<open>t.transpose(d0, d1)\<close>: the two axes exchanged, in the shape and in every index.\<close>

definition tensor_transpose :: "'a tensor \<Rightarrow> int \<Rightarrow> int \<Rightarrow> error + 'a tensor" where
  "tensor_transpose t d0 d1 =
     (case norm_dim (length (shape t)) d0 of
        Inl e \<Rightarrow> Inl e
      | Inr p \<Rightarrow>
          (case norm_dim (length (shape t)) d1 of
             Inl e \<Rightarrow> Inl e
           | Inr q \<Rightarrow>
               Inr (tensor_of (swap_dims p q (shape t))
                      (\<lambda>idx. tensor_at t (swap_dims p q idx)))))"

text \<open>
  \<^verbatim>\<open>t.unsqueeze(d)\<close>: a new axis of size 1 at position \<open>d\<close>, which is in \<open>[-r - 1, r]\<close>
  for a tensor of rank \<open>r\<close>. The entries and their order do not change.
\<close>

definition unsqueeze :: "'a tensor \<Rightarrow> int \<Rightarrow> error + 'a tensor" where
  "unsqueeze t d =
     (let r = int (length (shape t)) in
      if d < - r - 1 \<or> r < d then Inl IndexError
      else
        (let p = nat (if d < 0 then d + r + 1 else d) in
         Inr (t\<lparr>shape := take p (shape t) @ [1] @ drop p (shape t)\<rparr>)))"

text \<open>
  \<^verbatim>\<open>a + b\<close> broadcasts: the shapes are aligned at their last axes; two aligned sizes must
  be equal or one of them 1, and an axis of size 1 is read at index 0 for every index of
  the result. \<open>broadcast_rev\<close> works on the reversed shapes.
\<close>

fun broadcast_rev :: "nat list \<Rightarrow> nat list \<Rightarrow> nat list option" where
  "broadcast_rev [] ys = Some ys"
| "broadcast_rev (x # xs) [] = Some (x # xs)"
| "broadcast_rev (x # xs) (y # ys) =
     (if x = y \<or> y = 1 then map_option ((#) x) (broadcast_rev xs ys)
      else if x = 1 then map_option ((#) y) (broadcast_rev xs ys)
      else None)"

definition broadcast_shapes :: "nat list \<Rightarrow> nat list \<Rightarrow> nat list option" where
  "broadcast_shapes a b = map_option rev (broadcast_rev (rev a) (rev b))"

definition expand_index :: "nat list \<Rightarrow> nat list \<Rightarrow> nat list" where
  "expand_index s idx =
     map2 (\<lambda>n i. if n = 1 then 0 else i) s (drop (length idx - length s) idx)"

definition tensor_add :: "'a::plus tensor \<Rightarrow> 'a tensor \<Rightarrow> error + 'a tensor" where
  "tensor_add a b =
     (case broadcast_shapes (shape a) (shape b) of
        None \<Rightarrow> Inl ShapeMismatch
      | Some s \<Rightarrow>
          Inr (tensor_of s
                 (\<lambda>idx. tensor_at a (expand_index (shape a) idx)
                       + tensor_at b (expand_index (shape b) idx))))"

section \<open>The linear primitive\<close>

text \<open>
  Modelled from the spec: the class \<^verbatim>\<open>Linear\<close> of \<^verbatim>\<open>src/model/modules/primitives.py\<close>
  is not among the sources. The spec describes it as a linear-projection primitive that,
  given input and output feature widths and an initialization strategy, applies an affine
  map over the trailing feature axis, and that fails at once on a mismatch between the
  input's trailing feature width and the configured width. The weight is a tensor of
  shape \<open>[out_features, in_features]\<close>, the bias (when there is one) of shape
  \<open>[out_features]\<close>.
\<close>

record 'a Linear =
  in_features :: nat
  out_features :: nat
  weight :: "'a tensor"
  bias :: "'a tensor option"

text \<open>
  Modelled from the spec: the initialization strategies. \<^verbatim>\<open>"zeros"\<close> fills with zeros.
  What the default strategy draws is not specified: \<open>Default w b\<close> carries the drawn
  entries, \<open>w [k, c]\<close> for the weight and \<open>b [k]\<close> for the bias.
\<close>

datatype 'a initializer = Zeros | Default "nat list \<Rightarrow> 'a" "nat list \<Rightarrow> 'a"

text \<open>
  Modelled from the spec: the constructor. Whether the primitive has a bias when the
  caller does not say is not specified ("bias zero or absent"): \<open>has_bias\<close> is that
  default.
\<close>

definition Linear_init :: "bool \<Rightarrow> nat \<Rightarrow> nat \<Rightarrow> 'a::zero initializer \<Rightarrow> 'a Linear" where
  "Linear_init has_bias n_in n_out init =
     \<lparr>in_features = n_in, out_features = n_out,
      weight = (case init of
                  Zeros \<Rightarrow> zeros [n_out, n_in]
                | Default w b \<Rightarrow> tensor_of [n_out, n_in] w),
      bias = (if has_bias
              then Some (case init of
                           Zeros \<Rightarrow> zeros [n_out]
                         | Default w b \<Rightarrow> tensor_of [n_out] b)
              else None)\<rparr>"

text \<open>
  Modelled from the spec: the affine map over the trailing axis,
  \<open>y[..., k] = (\<Sum>c. x[..., c] * weight[k, c]) + bias[k]\<close>.
\<close>

definition Linear_forward :: "'a::semiring_0 Linear \<Rightarrow> 'a tensor \<Rightarrow> error + 'a tensor" where
  "Linear_forward l x =
     (if shape x = [] \<or> last (shape x) \<noteq> in_features l then Inl ShapeMismatch
      else
        Inr (tensor_of (butlast (shape x) @ [out_features l])
               (\<lambda>idx.
                  (\<Sum>c\<leftarrow>[0..<in_features l].
                     tensor_at x (butlast idx @ [c]) * tensor_at (weight l) [last idx, c])
                  + (case bias l of None \<Rightarrow> 0 | Some b \<Rightarrow> tensor_at b [last idx]))))"

text \<open>The parameters of a constructed primitive have the configured shapes.\<close>

definition Linear_ok :: "'a Linear \<Rightarrow> bool" where
  "Linear_ok l =
     (tensor_wf (weight l) \<and> shape (weight l) = [out_features l, in_features l] \<and>
      (case bias l of None \<Rightarrow> True | Some b \<Rightarrow> tensor_wf b \<and> shape b = [out_features l]))"

text \<open>\<^verbatim>\<open>nn.Sequential\<close> of linear primitives: each is applied to the result of the one before.\<close>

fun Sequential_forward :: "'a::semiring_0 Linear list \<Rightarrow> 'a tensor \<Rightarrow> error + 'a tensor" where
  "Sequential_forward [] x = Inr x"
| "Sequential_forward (l # ls) x =
     (case Linear_forward l x of Inl e \<Rightarrow> Inl e | Inr y \<Rightarrow> Sequential_forward ls y)"

section \<open>DistogramHead\<close>

record 'a DistogramHead =
  c_z :: nat
  no_bins :: nat
  linear :: "'a Linear"

text \<open>
  \<^verbatim>\<open>DistogramHead.__init__(c_z, no_bins)\<close> (defaults 128 and 64):
  \<^verbatim>\<open>Linear(in_features=c_z, out_features=no_bins, initializer="zeros")\<close>.
\<close>

definition DistogramHead_init :: "bool \<Rightarrow> nat \<Rightarrow> nat \<Rightarrow> 'a::zero DistogramHead" where
  "DistogramHead_init has_bias cz nb =
     \<lparr>c_z = cz, no_bins = nb, linear = Linear_init has_bias cz nb Zeros\<rparr>"

text \<open>
  \<^verbatim>\<open>logits = self.linear(z); logits = logits + logits.transpose(-2, -3); return logits\<close>
\<close>

definition DistogramHead_forward ::
  "'a::semiring_0 DistogramHead \<Rightarrow> 'a tensor \<Rightarrow> error + 'a tensor" where
  "DistogramHead_forward h x =
     (case Linear_forward (linear h) x of
        Inl e \<Rightarrow> Inl e
      | Inr logits \<Rightarrow>
          (case tensor_transpose logits (- 2) (- 3) of
             Inl e \<Rightarrow> Inl e
           | Inr lt \<Rightarrow> tensor_add logits lt))"

text \<open>
  What construction establishes and training keeps: the primitive maps \<open>c_z\<close> features
  to \<open>no_bins\<close> features.
\<close>

definition DistogramHead_ok :: "'a DistogramHead \<Rightarrow> bool" where
  "DistogramHead_ok h =
     (Linear_ok (linear h) \<and> in_features (linear h) = c_z h \<and> out_features (linear h) = no_bins h)"

section \<open>BondTypeHead\<close>

record 'a BondTypeHead =
  c_in :: nat
  c_hidden :: nat
  no_bond_types :: nat
  classifier :: "'a Linear list"

text \<open>
  \<^verbatim>\<open>BondTypeHead.__init__(c_z, c_hidden, no_bond_types)\<close> (defaults 1, 128 and
  \<^verbatim>\<open>len(BOND_TYPE)\<close>, a constant that is not among the sources):
  \<^verbatim>\<open>nn.Sequential(Linear(c_in, c_hidden), Linear(c_hidden, no_bond_types))\<close>, both with the
  default initialization, whose draws are \<open>i1\<close> and \<open>i2\<close>.
\<close>

definition BondTypeHead_init ::
  "bool \<Rightarrow> 'a initializer \<Rightarrow> 'a initializer \<Rightarrow> nat \<Rightarrow> nat \<Rightarrow> nat \<Rightarrow> 'a::zero BondTypeHead" where
  "BondTypeHead_init has_bias i1 i2 cz ch nbt =
     \<lparr>c_in = cz, c_hidden = ch, no_bond_types = nbt,
      classifier = [Linear_init has_bias cz ch i1, Linear_init has_bias ch nbt i2]\<rparr>"

text \<open>\<^verbatim>\<open>logits = self.classifier(z.unsqueeze(0)); return logits\<close>\<close>

definition BondTypeHead_forward ::
  "'a::semiring_0 BondTypeHead \<Rightarrow> 'a tensor \<Rightarrow> error + 'a tensor" where
  "BondTypeHead_forward h x =
     (case unsqueeze x 0 of
        Inl e \<Rightarrow> Inl e
      | Inr y \<Rightarrow> Sequential_forward (classifier h) y)"

text \<open>
  What construction establishes and training keeps: the classifier is two primitives,
  \<open>c_in \<rightarrow> c_hidden \<rightarrow> no_bond_types\<close>.
\<close>

definition BondTypeHead_ok :: "'a BondTypeHead \<Rightarrow> bool" where
  "BondTypeHead_ok h =
     (case classifier h of
        [l1, l2] \<Rightarrow>
          Linear_ok l1 \<and> Linear_ok l2 \<and>
          in_features l1 = c_in h \<and> out_features l1 = c_hidden h \<and>
          in_features l2 = c_hidden h \<and> out_features l2 = no_bond_types h
      | _ \<Rightarrow> False)"

text \<open>
  The single affine map that the spec says two consecutive linear maps collapse to:
  weight \<open>W2 W1\<close> and bias \<open>W2 b1 + b2\<close>.
\<close>

definition collapse :: "'a::semiring_0 Linear \<Rightarrow> 'a Linear \<Rightarrow> 'a Linear" where
  "collapse l1 l2 =
     \<lparr>in_features = in_features l1, out_features = out_features l2,
      weight = tensor_of [out_features l2, in_features l1]
                 (\<lambda>idx. \<Sum>h\<leftarrow>[0..<in_features l2].
                           tensor_at (weight l1) [h, idx ! 1] * tensor_at (weight l2) [idx ! 0, h]),
      bias = Some (tensor_of [out_features l2]
                 (\<lambda>idx. (\<Sum>h\<leftarrow>[0..<in_features l2].
                            (case bias l1 of None \<Rightarrow> 0 | Some b \<Rightarrow> tensor_at b [h])
                            * tensor_at (weight l2) [idx ! 0, h])
                        + (case bias l2 of None \<Rightarrow> 0 | Some b \<Rightarrow> tensor_at b [idx ! 0])))\<rparr>"

section \<open>PairwiseHead\<close>

text \<open>
  \<^verbatim>\<open>PairFormerOutput\<close> and \<^verbatim>\<open>PairwiseOutput\<close> are declared in
  \<^verbatim>\<open>src/api/model_interface.py\<close>, which is not among the sources. The head reads the field
  \<^verbatim>\<open>z\<close> of the first and builds the second from the distogram and the bond-type logits,
  \<^verbatim>\<open>None\<close> when there are none.
\<close>

record 'a PairFormerOutput =
  z :: "'a tensor"

record 'a PairwiseOutput =
  distogram :: "'a tensor"
  token_bond_type_logits :: "'a tensor option"

text \<open>
  The attribute \<^verbatim>\<open>bond_type_head\<close> exists only when \<^verbatim>\<open>bond_reconstruction\<close> was true at
  construction: \<open>None\<close> is the missing attribute.
\<close>

record 'a PairwiseHead =
  distogram_head :: "'a DistogramHead"
  bond_reconstruction :: bool
  bond_type_head :: "'a BondTypeHead option"

text \<open>
  \<^verbatim>\<open>PairwiseHead.__init__(c_z, no_bond_types, no_bins, bond_reconstruction)\<close> (defaults 128,
  \<^verbatim>\<open>len(BOND_TYPE)\<close>, 64 and \<^verbatim>\<open>True\<close>). The bond-type head is built with
  \<^verbatim>\<open>BondTypeHead(c_z=c_z, no_bond_types=no_bond_types)\<close>, so its hidden width is the
  default 128.
\<close>

definition PairwiseHead_init ::
  "bool \<Rightarrow> 'a initializer \<Rightarrow> 'a initializer \<Rightarrow> nat \<Rightarrow> nat \<Rightarrow> nat \<Rightarrow> bool \<Rightarrow> 'a::zero PairwiseHead" where
  "PairwiseHead_init has_bias i1 i2 cz nbt nb br =
     \<lparr>distogram_head = DistogramHead_init has_bias cz nb,
      bond_reconstruction = br,
      bond_type_head = (if br then Some (BondTypeHead_init has_bias i1 i2 cz 128 nbt) else None)\<rparr>"

definition PairwiseHead_forward ::
  "'a::semiring_0 PairwiseHead \<Rightarrow> 'a PairFormerOutput \<Rightarrow> error + 'a PairwiseOutput" where
  "PairwiseHead_forward p input_embedding =
     (case DistogramHead_forward (distogram_head p) (z input_embedding) of
        Inl e \<Rightarrow> Inl e
      | Inr d \<Rightarrow>
          if bond_reconstruction p then
            (case bond_type_head p of
               None \<Rightarrow> Inl AttributeError
             | Some bh \<Rightarrow>
                 (case BondTypeHead_forward bh (z input_embedding) of
                    Inl e \<Rightarrow> Inl e
                  | Inr b \<Rightarrow> Inr \<lparr>distogram = d, token_bond_type_logits = Some b\<rparr>))
          else Inr \<lparr>distogram = d, token_bond_type_logits = None\<rparr>)"

text \<open>
  What construction establishes: the bond-type head exists exactly when the toggle is
  set, and both heads were built for the same pair-embedding width.
\<close>

definition PairwiseHead_ok :: "'a PairwiseHead \<Rightarrow> bool" where
  "PairwiseHead_ok p =
     (DistogramHead_ok (distogram_head p) \<and>
      (case bond_type_head p of
         None \<Rightarrow> \<not> bond_reconstruction p
       | Some bh \<Rightarrow>
           bond_reconstruction p \<and> BondTypeHead_ok bh \<and> c_in bh = c_z (distogram_head p)))"

section \<open>Example values\<close>

text \<open>A trained distogram head with one feature and one bin, and a \<open>2 \<times> 2\<close> pair embedding.\<close>

definition ex_head :: "int DistogramHead" where
  "ex_head =
     \<lparr>c_z = 1, no_bins = 1,
      linear = \<lparr>in_features = 1, out_features = 1,
                weight = \<lparr>shape = [1, 1], data = [2]\<rparr>,
                bias = Some \<lparr>shape = [1], data = [3]\<rparr>\<rparr>\<rparr>"

definition ex_pair :: "int tensor" where
  "ex_pair = \<lparr>shape = [2, 2, 1], data = [1, 2, 3, 4]\<rparr>"

text \<open>A pair embedding with one batch entry, three tokens and four features.\<close>

definition ex_batch :: "int tensor" where
  "ex_batch = \<lparr>shape = [1, 3, 3, 4], data = map int [0..<36]\<rparr>"

text \<open>
  A trained bond-type head \<open>1 \<rightarrow> 2 \<rightarrow> 1\<close>, a pairwise head over the two example heads,
  and an input with an explicit batch axis.
\<close>

definition ex_bond :: "int BondTypeHead" where
  "ex_bond =
     \<lparr>c_in = 1, c_hidden = 2, no_bond_types = 1,
      classifier =
        [\<lparr>in_features = 1, out_features = 2,
          weight = \<lparr>shape = [2, 1], data = [1, 2]\<rparr>,
          bias = Some \<lparr>shape = [2], data = [3, 4]\<rparr>\<rparr>,
         \<lparr>in_features = 2, out_features = 1,
          weight = \<lparr>shape = [1, 2], data = [5, 6]\<rparr>,
          bias = None\<rparr>]\<rparr>"

definition ex_pairwise :: "bool \<Rightarrow> int PairwiseHead" where
  "ex_pairwise br =
     \<lparr>distogram_head = ex_head, bond_reconstruction = br,
      bond_type_head = (if br then Some ex_bond else None)\<rparr>"

definition ex_input :: "int PairFormerOutput" where
  "ex_input = \<lparr>z = \<lparr>shape = [1, 2, 2, 1], data = [1, 2, 3, 4]\<rparr>\<rparr>"

text \<open>What the default initializer drew, for a constructed head: 1 in the weights, 2 in the biases.\<close>

definition ex_draw :: "int initializer" where
  "ex_draw = Default (\<lambda>idx. 1) (\<lambda>idx. 2)"

section \<open>Facts about tensors\<close>

lemma length_indices: "length (indices s) = prod_list s"
  unfolding indices_def
  by (induction s) (simp_all add: length_concat comp_def sum_list_triv)

lemma set_indices: "set (indices s) = {idx. valid_index s idx}"
  unfolding indices_def valid_index_def
  by (simp add: product_lists_set list_all2_map2)

lemma nth_concat_blocks:
  assumes "\<And>k. k < n \<Longrightarrow> length (g k) = m" "i < n" "j < m"
  shows "i * m + j < n * m \<and> concat (map g [0..<n]) ! (i * m + j) = g i ! j"
  using assms
proof (induction n)
  case 0
  then show ?case by simp
next
  case (Suc n)
  have "(\<Sum>k\<leftarrow>[0..<n]. length (g k)) = (\<Sum>k\<leftarrow>[0..<n]. m)"
    by (rule arg_cong [where f = sum_list]) (simp add: Suc.prems(1))
  then have len: "length (concat (map g [0..<n])) = n * m"
    by (simp add: length_concat comp_def sum_list_triv)
  show ?case
  proof (cases "i < n")
    case True
    with Suc have "i * m + j < n * m \<and> concat (map g [0..<n]) ! (i * m + j) = g i ! j"
      by simp
    then show ?thesis by (simp add: nth_append len)
  next
    case False
    with Suc.prems have "i = n" by simp
    then show ?thesis using Suc.prems by (simp add: nth_append len)
  qed
qed

lemma nth_indices:
  "valid_index s idx \<Longrightarrow> offset s idx < prod_list s \<and> indices s ! offset s idx = idx"
proof (induction s arbitrary: idx)
  case Nil
  then show ?case by (simp add: valid_index_def indices_def)
next
  case (Cons n ns)
  from Cons.prems obtain i js where idx: "idx = i # js" and i: "i < n" and js: "valid_index ns js"
    by (auto simp: valid_index_def list_all2_Cons2)
  from Cons.IH [OF js] have o: "offset ns js < prod_list ns" and e: "indices ns ! offset ns js = js"
    by simp_all
  let ?g = "\<lambda>i. map ((#) i) (indices ns)"
  have "i * prod_list ns + offset ns js < n * prod_list ns \<and>
        concat (map ?g [0..<n]) ! (i * prod_list ns + offset ns js) = ?g i ! offset ns js"
    by (rule nth_concat_blocks) (simp_all add: length_indices i o)
  moreover have "indices (n # ns) = concat (map ?g [0..<n])"
    by (simp add: indices_def)
  ultimately show ?case
    using o e by (simp add: idx length_indices)
qed

lemma tensor_at_tensor_of:
  "valid_index s idx \<Longrightarrow> tensor_at (tensor_of s f) idx = f idx"
  using nth_indices [of s idx] by (simp add: tensor_at_def tensor_of_def length_indices)

lemma tensor_of_cong:
  "(\<And>idx. valid_index s idx \<Longrightarrow> f idx = g idx) \<Longrightarrow> tensor_of s f = tensor_of s g"
  by (simp add: tensor_of_def set_indices)

lemma shape_tensor_of: "shape (tensor_of s f) = s"
  by (simp add: tensor_of_def)

lemma tensor_wf_tensor_of: "tensor_wf (tensor_of s f)"
  by (simp add: tensor_wf_def tensor_of_def length_indices)

lemma zeros_tensor_of: "zeros s = tensor_of s (\<lambda>idx. 0)"
  by (simp add: zeros_def tensor_of_def map_replicate_const length_indices)

lemma valid_index_length: "valid_index s idx \<Longrightarrow> length idx = length s"
  by (simp add: valid_index_def list_all2_lengthD)

lemma valid_index_append:
  "length pre = length bs \<Longrightarrow>
     valid_index (bs @ s) (pre @ idx) = (valid_index bs pre \<and> valid_index s idx)"
  by (simp add: valid_index_def list_all2_append)

lemma valid_index_split:
  assumes "valid_index (bs @ s) idx"
  obtains pre rest where "idx = pre @ rest" "valid_index bs pre" "valid_index s rest"
  using assms unfolding valid_index_def by (auto simp: list_all2_append2)

lemma valid_index3:
  "valid_index [a, b, c] idx = (\<exists>i j k. idx = [i, j, k] \<and> i < a \<and> j < b \<and> k < c)"
  by (auto simp: valid_index_def list_all2_Cons2)

lemma norm_dim_m2: "norm_dim (Suc (Suc (Suc n))) (- 2) = Inr (Suc n)"
  by (simp add: norm_dim_def)

lemma norm_dim_m3: "norm_dim (Suc (Suc (Suc n))) (- 3) = Inr n"
  by (simp add: norm_dim_def)

lemma swap_dims_last3:
  "length pre = n \<Longrightarrow> swap_dims (Suc n) n (pre @ [a, b, c]) = pre @ [b, a, c]"
  by (auto simp: swap_dims_def nth_append list_update_append)

lemma tensor_transpose_last3:
  "shape t = bs @ [a, b, c] \<Longrightarrow>
     tensor_transpose t (- 2) (- 3) =
       Inr (tensor_of (bs @ [b, a, c])
              (\<lambda>idx. tensor_at t (swap_dims (Suc (length bs)) (length bs) idx)))"
  by (simp add: tensor_transpose_def norm_dim_m2 norm_dim_m3 swap_dims_last3)

lemma broadcast_rev_same: "broadcast_rev s s = Some s"
  by (induction s) simp_all

lemma broadcast_shapes_same: "broadcast_shapes s s = Some s"
  by (simp add: broadcast_shapes_def broadcast_rev_same)

lemma expand_index_valid: "valid_index s idx \<Longrightarrow> expand_index s idx = idx"
proof -
  assume v: "valid_index s idx"
  then have len: "length idx = length s" by (rule valid_index_length)
  have "list_all2 (\<lambda>i n. i < n) idx s \<Longrightarrow> map2 (\<lambda>n i. if n = 1 then 0 else i) s idx = idx"
    by (induction idx s rule: list_all2_induct) auto
  with v show ?thesis by (simp add: expand_index_def len valid_index_def)
qed

lemma tensor_add_same_shape:
  "shape a = shape b \<Longrightarrow>
     tensor_add a b = Inr (tensor_of (shape a) (\<lambda>idx. tensor_at a idx + tensor_at b idx))"
  by (auto simp: tensor_add_def broadcast_shapes_same expand_index_valid intro!: tensor_of_cong)

lemma tensor_at_zeros: "valid_index s idx \<Longrightarrow> tensor_at (zeros s) idx = 0"
  by (simp add: zeros_tensor_of tensor_at_tensor_of)

lemma valid_index_snoc:
  "valid_index (bs @ [n]) idx = (\<exists>pre k. idx = pre @ [k] \<and> valid_index bs pre \<and> k < n)"
proof
  assume "valid_index (bs @ [n]) idx"
  then obtain pre rest where "idx = pre @ rest" "valid_index bs pre" "valid_index [n] rest"
    by (rule valid_index_split)
  then show "\<exists>pre k. idx = pre @ [k] \<and> valid_index bs pre \<and> k < n"
    by (auto simp: valid_index_def list_all2_Cons2)
next
  assume "\<exists>pre k. idx = pre @ [k] \<and> valid_index bs pre \<and> k < n"
  then obtain pre k where "idx = pre @ [k]" "valid_index bs pre" "k < n"
    by blast
  then show "valid_index (bs @ [n]) idx"
    using valid_index_length [of bs pre]
    by (simp add: valid_index_append) (simp add: valid_index_def)
qed

lemma valid_index_swap_square:
  assumes "valid_index (bs @ [n, n, c]) idx"
  shows "valid_index (bs @ [n, n, c]) (swap_dims (Suc (length bs)) (length bs) idx)"
proof -
  from assms obtain pre rest where idx: "idx = pre @ rest" and p: "valid_index bs pre"
    and r: "valid_index [n, n, c] rest"
    by (rule valid_index_split)
  from r obtain i j k where rest: "rest = [i, j, k]" and b: "i < n" "j < n" "k < c"
    by (auto simp: valid_index3)
  have len: "length pre = length bs" using p by (rule valid_index_length)
  show ?thesis
    using p b by (simp add: idx rest swap_dims_last3 len valid_index_append valid_index3)
qed

lemma Linear_forward_shape:
  "shape x = bs @ [in_features l] \<Longrightarrow>
     Linear_forward l x =
       Inr (tensor_of (bs @ [out_features l])
              (\<lambda>idx.
                 (\<Sum>c\<leftarrow>[0..<in_features l].
                    tensor_at x (butlast idx @ [c]) * tensor_at (weight l) [last idx, c])
                 + (case bias l of None \<Rightarrow> 0 | Some b \<Rightarrow> tensor_at b [last idx])))"
  by (simp add: Linear_forward_def)

lemma Linear_forward_Inr:
  "Linear_forward l x = Inr y \<Longrightarrow>
     shape x = butlast (shape x) @ [in_features l] \<and> shape y = butlast (shape x) @ [out_features l]"
proof -
  assume a: "Linear_forward l x = Inr y"
  then have ne: "shape x \<noteq> []" and la: "last (shape x) = in_features l"
    by (auto simp: Linear_forward_def split: if_splits)
  from a have "shape y = butlast (shape x) @ [out_features l]"
    by (auto simp: Linear_forward_def shape_tensor_of split: if_splits)
  moreover from ne have "butlast (shape x) @ [last (shape x)] = shape x"
    by (rule append_butlast_last_id)
  ultimately show ?thesis
    using la by simp
qed

lemma DistogramHead_forward_square:
  assumes l: "Linear_forward (linear h) x = Inr logits"
    and s: "shape x = bs @ [n, n, c]"
  shows "DistogramHead_forward h x =
           Inr (tensor_of (bs @ [n, n, out_features (linear h)])
                  (\<lambda>idx. tensor_at logits idx
                        + tensor_at logits (swap_dims (Suc (length bs)) (length bs) idx)))"
proof -
  let ?s = "bs @ [n, n, out_features (linear h)]"
  let ?sw = "swap_dims (Suc (length bs)) (length bs)"
  from Linear_forward_Inr [OF l] s have sl: "shape logits = ?s"
    by simp
  then have t: "tensor_transpose logits (- 2) (- 3) = Inr (tensor_of ?s (\<lambda>idx. tensor_at logits (?sw idx)))"
    by (rule tensor_transpose_last3)
  have a: "tensor_add logits (tensor_of ?s (\<lambda>idx. tensor_at logits (?sw idx))) =
      Inr (tensor_of ?s (\<lambda>idx. tensor_at logits idx
              + tensor_at (tensor_of ?s (\<lambda>idx. tensor_at logits (?sw idx))) idx))"
    using tensor_add_same_shape [of logits "tensor_of ?s (\<lambda>idx. tensor_at logits (?sw idx))"]
    by (simp add: sl shape_tensor_of)
  have "tensor_of ?s (\<lambda>idx. tensor_at logits idx
              + tensor_at (tensor_of ?s (\<lambda>idx. tensor_at logits (?sw idx))) idx) =
        tensor_of ?s (\<lambda>idx. tensor_at logits idx + tensor_at logits (?sw idx))"
    by (rule tensor_of_cong) (simp add: tensor_at_tensor_of)
  with a t l show ?thesis
    by (simp add: DistogramHead_forward_def)
qed

lemma DistogramHead_forward_Inr:
  "DistogramHead_forward h x = Inr r \<Longrightarrow> \<exists>logits. Linear_forward (linear h) x = Inr logits"
  by (auto simp: DistogramHead_forward_def split: sum.splits)

section \<open>DistogramHead: symmetry\<close>

text \<open>
  Claim C1. For an input of shape \<open>(..., N, N, c)\<close> and any parameters, the output of
  \<open>DistogramHead_forward\<close> is symmetric under exchange of the two token axes: the entries
  at \<open>(..., i, j, k)\<close> and \<open>(..., j, i, k)\<close> are equal, whether or not the input is
  symmetric.
\<close>

theorem DistogramHead_forward_symmetric:
  fixes h :: "'a::semiring_0 DistogramHead"
  assumes "DistogramHead_forward h x = Inr r"
    and "shape x = bs @ [n, n, c]"
    and "valid_index (shape r) (pre @ [i, j, k])"
  shows "tensor_at r (pre @ [i, j, k]) = tensor_at r (pre @ [j, i, k])"
proof -
  from assms(1) obtain logits where l: "Linear_forward (linear h) x = Inr logits"
    using DistogramHead_forward_Inr by blast
  let ?s = "bs @ [n, n, out_features (linear h)]"
  let ?sw = "swap_dims (Suc (length bs)) (length bs)"
  from DistogramHead_forward_square [OF l assms(2)] assms(1)
  have r: "r = tensor_of ?s (\<lambda>idx. tensor_at logits idx + tensor_at logits (?sw idx))"
    by simp
  then have v: "valid_index ?s (pre @ [i, j, k])"
    using assms(3) by (simp add: shape_tensor_of)
  then have len: "length pre = length bs"
    by (auto dest: valid_index_length)
  from valid_index_swap_square [OF v] have v': "valid_index ?s (pre @ [j, i, k])"
    by (simp add: swap_dims_last3 len)
  show ?thesis
    by (simp add: r tensor_at_tensor_of v v' swap_dims_last3 len add.commute)
qed

theorem DistogramHead_forward_symmetric_witness:
  "DistogramHead_forward ex_head ex_pair = Inr \<lparr>shape = [2, 2, 1], data = [10, 16, 16, 22]\<rparr> \<and>
   shape ex_pair = [] @ [2, 2, 1] \<and>
   valid_index [2, 2, 1] ([] @ [0, 1, 0]) \<and>
   tensor_at \<lparr>shape = [2, 2, 1], data = [10, 16, 16, 22 :: int]\<rparr> ([] @ [0, 1, 0]) =
   tensor_at \<lparr>shape = [2, 2, 1], data = [10, 16, 16, 22]\<rparr> ([] @ [1, 0, 0])"
proof -
  have e: "DistogramHead_forward ex_head ex_pair =
      Inr \<lparr>shape = [2, 2, 1], data = [10, 16, 16, 22]\<rparr>"
    by code_simp
  have s: "shape ex_pair = [] @ [2, 2, 1]"
    by (simp add: ex_pair_def)
  have v: "valid_index (shape \<lparr>shape = [2, 2, 1], data = [10, 16, 16, 22 :: int]\<rparr>) ([] @ [0, 1, 0])"
    by (simp add: valid_index_def)
  from DistogramHead_forward_symmetric [OF e s v] e s v show ?thesis
    by simp
qed

section \<open>DistogramHead: shape and diagonal\<close>

lemma DistogramHead_forward_returns:
  assumes "shape x = bs @ [n, n, in_features (linear h)]"
  shows "\<exists>r. DistogramHead_forward h x = Inr r \<and> shape r = bs @ [n, n, out_features (linear h)]"
proof -
  from assms have "shape x = (bs @ [n, n]) @ [in_features (linear h)]"
    by simp
  from Linear_forward_shape [OF this] obtain logits
    where "Linear_forward (linear h) x = Inr logits"
    by blast
  from DistogramHead_forward_square [OF this assms] show ?thesis
    by (simp add: shape_tensor_of)
qed

text \<open>
  Claim C4. A distogram head configured with feature width \<open>c_z\<close> and bin count
  \<open>no_bins\<close> returns, for every input of shape \<open>(..., N, N, c_z)\<close>, a tensor of shape
  \<open>(..., N, N, no_bins)\<close>: the batch axes and both token axes are kept, the feature axis
  becomes the bin axis.
\<close>

theorem DistogramHead_forward_shape:
  assumes "DistogramHead_ok h"
    and "shape x = bs @ [n, n, c_z h]"
  shows "\<exists>r. DistogramHead_forward h x = Inr r \<and> shape r = bs @ [n, n, no_bins h]"
  using assms DistogramHead_forward_returns [of x bs n h]
  by (simp add: DistogramHead_ok_def)

theorem DistogramHead_forward_shape_witness:
  "DistogramHead_ok ex_head \<and> shape ex_pair = [] @ [2, 2, c_z ex_head] \<and>
   (\<exists>r. DistogramHead_forward ex_head ex_pair = Inr r \<and> shape r = [] @ [2, 2, no_bins ex_head])"
proof -
  have k: "DistogramHead_ok ex_head"
    by (simp add: DistogramHead_ok_def Linear_ok_def tensor_wf_def ex_head_def)
  have s: "shape ex_pair = [] @ [2, 2, c_z ex_head]"
    by (simp add: ex_pair_def ex_head_def)
  from DistogramHead_forward_shape [OF k s] k s show ?thesis
    by blast
qed

lemma Linear_ok_init: "Linear_ok (Linear_init hb n_in n_out init)"
  by (cases init)
    (simp_all add: Linear_ok_def Linear_init_def zeros_def tensor_wf_def shape_tensor_of
      tensor_wf_tensor_of [unfolded tensor_wf_def])

lemma DistogramHead_ok_init: "DistogramHead_ok (DistogramHead_init hb cz nb)"
  by (simp add: DistogramHead_ok_def DistogramHead_init_def Linear_ok_init)
    (simp add: Linear_init_def)

text \<open>
  Claim C8. On the diagonal the symmetrization doubles the projected value: for an input
  of shape \<open>(..., N, N, c)\<close> with projection \<open>logits = linear(z)\<close>, the output at
  \<open>(..., i, i, k)\<close> is twice \<open>logits\<close> at \<open>(..., i, i, k)\<close>. The diagonal has no case
  of its own in \<open>DistogramHead_forward\<close>.
\<close>

theorem DistogramHead_forward_diagonal:
  fixes h :: "'a::semiring_1 DistogramHead"
  assumes l: "Linear_forward (linear h) x = Inr logits"
    and s: "shape x = bs @ [n, n, c]"
    and v: "valid_index (shape logits) (pre @ [i, i, k])"
  shows "\<exists>r. DistogramHead_forward h x = Inr r \<and>
             tensor_at r (pre @ [i, i, k]) = 2 * tensor_at logits (pre @ [i, i, k])"
proof -
  let ?s = "bs @ [n, n, out_features (linear h)]"
  from Linear_forward_Inr [OF l] s have "shape logits = ?s"
    by simp
  with v have v': "valid_index ?s (pre @ [i, i, k])"
    by simp
  then have len: "length pre = length bs"
    by (auto dest: valid_index_length)
  show ?thesis
    by (simp add: DistogramHead_forward_square [OF l s] tensor_at_tensor_of v'
        swap_dims_last3 len mult_2)
qed

theorem DistogramHead_forward_diagonal_witness:
  "Linear_forward (linear ex_head) ex_pair = Inr \<lparr>shape = [2, 2, 1], data = [5, 7, 9, 11]\<rparr> \<and>
   shape ex_pair = [] @ [2, 2, 1] \<and>
   valid_index [2, 2, 1] ([] @ [1, 1, 0]) \<and>
   (\<exists>r. DistogramHead_forward ex_head ex_pair = Inr r \<and> tensor_at r ([] @ [1, 1, 0]) = 22)"
proof -
  have l: "Linear_forward (linear ex_head) ex_pair =
      Inr \<lparr>shape = [2, 2, 1], data = [5, 7, 9, 11]\<rparr>"
    by code_simp
  have s: "shape ex_pair = [] @ [2, 2, 1]"
    by (simp add: ex_pair_def)
  have v: "valid_index (shape \<lparr>shape = [2, 2, 1], data = [5, 7, 9, 11 :: int]\<rparr>) ([] @ [1, 1, 0])"
    by (simp add: valid_index_def)
  have a: "tensor_at \<lparr>shape = [2, 2, 1], data = [5, 7, 9, 11 :: int]\<rparr> ([] @ [1, 1, 0]) = 11"
    by (simp add: tensor_at_def)
  from DistogramHead_forward_diagonal [OF l s v] l s v a show ?thesis
    by simp
qed

section \<open>DistogramHead: zero initialization\<close>

lemma sum_list_all_zero:
  fixes f :: "'b \<Rightarrow> 'a::monoid_add"
  shows "(\<And>y. y \<in> set ys \<Longrightarrow> f y = 0) \<Longrightarrow> (\<Sum>y\<leftarrow>ys. f y) = 0"
  by (induction ys) simp_all

lemma Linear_forward_zeros:
  fixes x :: "'a::semiring_0 tensor"
  assumes "shape x = bs @ [n_in]"
  shows "Linear_forward (Linear_init hb n_in n_out Zeros) x = Inr (zeros (bs @ [n_out]))"
proof -
  let ?l = "Linear_init hb n_in n_out Zeros :: 'a Linear"
  have f: "in_features ?l = n_in" "out_features ?l = n_out" "weight ?l = zeros [n_out, n_in]"
    "bias ?l = (if hb then Some (zeros [n_out]) else None)"
    by (simp_all add: Linear_init_def)
  have "tensor_of (bs @ [n_out])
          (\<lambda>idx. (\<Sum>c\<leftarrow>[0..<n_in]. tensor_at x (butlast idx @ [c]) * tensor_at (zeros [n_out, n_in] :: 'a tensor) [last idx, c])
                 + (case (if hb then Some (zeros [n_out]) else None) of None \<Rightarrow> 0 | Some b \<Rightarrow> tensor_at b [last idx]))
        = tensor_of (bs @ [n_out]) (\<lambda>idx. 0)"
  proof (rule tensor_of_cong)
    fix idx
    assume "valid_index (bs @ [n_out]) idx"
    then obtain p k where idx: "idx = p @ [k]" and k: "k < n_out"
      by (auto simp: valid_index_snoc)
    have w: "tensor_at (zeros [n_out, n_in] :: 'a tensor) [k, c] = 0" if "c < n_in" for c
      using that k by (simp add: tensor_at_zeros valid_index_def)
    have b: "tensor_at (zeros [n_out] :: 'a tensor) [k] = 0"
      using k by (simp add: tensor_at_zeros valid_index_def)
    have "(\<Sum>c\<leftarrow>[0..<n_in]. tensor_at x (p @ [c]) * tensor_at (zeros [n_out, n_in] :: 'a tensor) [k, c]) = 0"
      by (rule sum_list_all_zero) (simp add: w)
    then show "(\<Sum>c\<leftarrow>[0..<n_in]. tensor_at x (butlast idx @ [c]) * tensor_at (zeros [n_out, n_in] :: 'a tensor) [last idx, c])
                 + (case (if hb then Some (zeros [n_out]) else None) of None \<Rightarrow> 0 | Some b \<Rightarrow> tensor_at b [last idx]) = 0"
      by (simp add: idx b)
  qed
  then show ?thesis
    using Linear_forward_shape [of x bs ?l] assms by (simp add: f zeros_tensor_of)
qed

lemma DistogramHead_forward_zero_init:
  fixes x :: "'a::semiring_0 tensor"
  assumes s: "shape x = bs @ [n, n, cz]"
  shows "DistogramHead_forward (DistogramHead_init hb cz nb) x = Inr (zeros (bs @ [n, n, nb]))"
proof -
  let ?h = "DistogramHead_init hb cz nb :: 'a DistogramHead"
  let ?s = "bs @ [n, n, nb]"
  have lin: "linear ?h = Linear_init hb cz nb Zeros"
    by (simp add: DistogramHead_init_def)
  have out: "out_features (linear ?h) = nb"
    by (simp add: lin Linear_init_def)
  from s have "shape x = (bs @ [n, n]) @ [cz]" by simp
  from Linear_forward_zeros [OF this, of hb nb]
  have l: "Linear_forward (linear ?h) x = Inr (zeros ?s)"
    by (simp add: lin)
  have "tensor_of ?s (\<lambda>idx. tensor_at (zeros ?s :: 'a tensor) idx
          + tensor_at (zeros ?s :: 'a tensor) (swap_dims (Suc (length bs)) (length bs) idx))
        = tensor_of ?s (\<lambda>idx. 0)"
    by (rule tensor_of_cong) (simp add: tensor_at_zeros valid_index_swap_square)
  with DistogramHead_forward_square [OF l s] show ?thesis
    by (simp add: out zeros_tensor_of)
qed

text \<open>
  Claim C2. Right after construction (weight filled by the \<^verbatim>\<open>"zeros"\<close> initializer, bias
  zero or absent) \<open>DistogramHead_forward\<close> returns the all-zero tensor for every input of
  shape \<open>(..., N, N, c_z)\<close>.
\<close>

theorem DistogramHead_zero_init_output:
  fixes x :: "'a::semiring_0 tensor"
  assumes "shape x = bs @ [n, n, cz]"
  shows "DistogramHead_forward (DistogramHead_init hb cz nb) x = Inr (zeros (bs @ [n, n, nb]))"
  using assms by (rule DistogramHead_forward_zero_init)

theorem DistogramHead_zero_init_output_witness:
  "shape ex_pair = [] @ [2, 2, 1] \<and>
   DistogramHead_forward (DistogramHead_init True 1 2) ex_pair = Inr (zeros ([] @ [2, 2, 2]))"
proof -
  have s: "shape ex_pair = [] @ [2, 2, 1]"
    by (simp add: ex_pair_def)
  from DistogramHead_zero_init_output [OF s] s show ?thesis
    by blast
qed

text \<open>
  Claim C6. With \<open>c_z = 4\<close>, \<open>no_bins = 2\<close> and zero-initialized weights, every input of
  shape \<open>(1, 3, 3, 4)\<close> gives the tensor of shape \<open>(1, 3, 3, 2)\<close> whose 18 entries are 0.
\<close>

theorem DistogramHead_scenario:
  fixes x :: "'a::semiring_0 tensor"
  assumes "shape x = [1, 3, 3, 4]"
  shows "DistogramHead_forward (DistogramHead_init hb 4 2) x =
           Inr \<lparr>shape = [1, 3, 3, 2], data = replicate 18 0\<rparr>"
  using assms DistogramHead_forward_zero_init [of x "[1]" 3 4 hb 2]
  by (simp add: zeros_def)

theorem DistogramHead_scenario_witness:
  "shape ex_batch = [1, 3, 3, 4] \<and>
   DistogramHead_forward (DistogramHead_init False 4 2) ex_batch =
     Inr \<lparr>shape = [1, 3, 3, 2], data = replicate 18 0\<rparr>"
proof -
  have s: "shape ex_batch = [1, 3, 3, 4]"
    by (simp add: ex_batch_def)
  from DistogramHead_scenario [OF s] s show ?thesis
    by blast
qed

section \<open>BondTypeHead: the classifier as one affine map\<close>

lemma affine_compose:
  fixes a :: "nat \<Rightarrow> 'a::semiring_0"
  shows "(\<Sum>h\<leftarrow>[0..<H]. ((\<Sum>c\<leftarrow>[0..<C]. a c * w1 h c) + b1 h) * w2 h) + b2 =
         (\<Sum>c\<leftarrow>[0..<C]. a c * (\<Sum>h\<leftarrow>[0..<H]. w1 h c * w2 h)) + ((\<Sum>h\<leftarrow>[0..<H]. b1 h * w2 h) + b2)"
proof -
  have "(\<Sum>h\<in>{0..<H}. ((\<Sum>c\<in>{0..<C}. a c * w1 h c) + b1 h) * w2 h) =
        (\<Sum>h\<in>{0..<H}. (\<Sum>c\<in>{0..<C}. a c * (w1 h c * w2 h))) + (\<Sum>h\<in>{0..<H}. b1 h * w2 h)"
    by (simp add: distrib_right sum.distrib sum_distrib_right mult.assoc)
  also have "(\<Sum>h\<in>{0..<H}. (\<Sum>c\<in>{0..<C}. a c * (w1 h c * w2 h))) =
        (\<Sum>c\<in>{0..<C}. (\<Sum>h\<in>{0..<H}. a c * (w1 h c * w2 h)))"
    by (rule sum.swap)
  also have "\<dots> = (\<Sum>c\<in>{0..<C}. a c * (\<Sum>h\<in>{0..<H}. w1 h c * w2 h))"
    by (simp add: sum_distrib_left)
  finally show ?thesis
    by (simp add: interv_sum_list_conv_sum_set_nat add.assoc)
qed

lemma sum_list_upt_cong:
  fixes f :: "nat \<Rightarrow> 'a::monoid_add"
  shows "(\<And>c. c < n \<Longrightarrow> f c = g c) \<Longrightarrow> (\<Sum>c\<leftarrow>[0..<n]. f c) = (\<Sum>c\<leftarrow>[0..<n]. g c)"
  by (rule arg_cong [where f = sum_list]) simp

lemma Sequential_two_collapse:
  fixes l1 l2 :: "'a::semiring_0 Linear"
  assumes chain: "out_features l1 = in_features l2"
  shows "Sequential_forward [l1, l2] y = Linear_forward (collapse l1 l2) y"
proof (cases "shape y = [] \<or> last (shape y) \<noteq> in_features l1")
  case True
  then show ?thesis
    by (auto simp: Linear_forward_def collapse_def)
next
  case False
  define bs where "bs = butlast (shape y)"
  let ?C = "in_features l1" and ?H = "in_features l2" and ?K = "out_features l2"
  let ?b1 = "\<lambda>h. case bias l1 of None \<Rightarrow> 0 | Some b \<Rightarrow> tensor_at b [h]"
  let ?b2 = "\<lambda>k. case bias l2 of None \<Rightarrow> 0 | Some b \<Rightarrow> tensor_at b [k]"
  let ?f1 = "\<lambda>idx. (\<Sum>c\<leftarrow>[0..<?C]. tensor_at y (butlast idx @ [c]) * tensor_at (weight l1) [last idx, c])
                  + ?b1 (last idx)"
  let ?y1 = "tensor_of (bs @ [?H]) ?f1"
  from False have ne: "shape y \<noteq> []" and la: "last (shape y) = ?C"
    by simp_all
  from append_butlast_last_id [OF ne] have sy: "shape y = bs @ [?C]"
    by (simp add: bs_def la)
  have s1: "Linear_forward l1 y = Inr ?y1"
    using Linear_forward_shape [OF sy] by (simp add: chain)
  have s2: "Linear_forward l2 ?y1 =
      Inr (tensor_of (bs @ [?K])
        (\<lambda>idx. (\<Sum>h\<leftarrow>[0..<?H]. tensor_at ?y1 (butlast idx @ [h]) * tensor_at (weight l2) [last idx, h])
               + ?b2 (last idx)))"
    by (rule Linear_forward_shape) (simp add: shape_tensor_of)
  have c: "Linear_forward (collapse l1 l2) y =
      Inr (tensor_of (bs @ [?K])
        (\<lambda>idx. (\<Sum>c\<leftarrow>[0..<?C]. tensor_at y (butlast idx @ [c]) * tensor_at (weight (collapse l1 l2)) [last idx, c])
               + (case bias (collapse l1 l2) of None \<Rightarrow> 0 | Some b \<Rightarrow> tensor_at b [last idx])))"
    using Linear_forward_shape [of y bs "collapse l1 l2"] sy
    by (simp add: collapse_def)
  have "tensor_of (bs @ [?K])
        (\<lambda>idx. (\<Sum>h\<leftarrow>[0..<?H]. tensor_at ?y1 (butlast idx @ [h]) * tensor_at (weight l2) [last idx, h])
               + ?b2 (last idx)) =
      tensor_of (bs @ [?K])
        (\<lambda>idx. (\<Sum>c\<leftarrow>[0..<?C]. tensor_at y (butlast idx @ [c]) * tensor_at (weight (collapse l1 l2)) [last idx, c])
               + (case bias (collapse l1 l2) of None \<Rightarrow> 0 | Some b \<Rightarrow> tensor_at b [last idx]))"
  proof (rule tensor_of_cong)
    fix idx
    assume "valid_index (bs @ [?K]) idx"
    then obtain p k where idx: "idx = p @ [k]" and p: "valid_index bs p" and k: "k < ?K"
      by (auto simp: valid_index_snoc)
    have y1: "tensor_at ?y1 (p @ [h]) =
        (\<Sum>c\<leftarrow>[0..<?C]. tensor_at y (p @ [c]) * tensor_at (weight l1) [h, c]) + ?b1 h"
      if "h < ?H" for h
    proof -
      have "valid_index (bs @ [?H]) (p @ [h])"
        using p that by (auto simp: valid_index_snoc)
      then show ?thesis
        by (simp add: tensor_at_tensor_of split: option.split)
    qed
    have w: "tensor_at (weight (collapse l1 l2)) [k, c] =
        (\<Sum>h\<leftarrow>[0..<?H]. tensor_at (weight l1) [h, c] * tensor_at (weight l2) [k, h])"
      if "c < ?C" for c
      using that k by (simp add: collapse_def tensor_at_tensor_of valid_index_def)
    have b: "(case bias (collapse l1 l2) of None \<Rightarrow> 0 | Some b \<Rightarrow> tensor_at b [k]) =
        (\<Sum>h\<leftarrow>[0..<?H]. ?b1 h * tensor_at (weight l2) [k, h]) + ?b2 k"
      using k by (simp add: collapse_def tensor_at_tensor_of valid_index_def split: option.split)
    have "(\<Sum>h\<leftarrow>[0..<?H]. tensor_at ?y1 (p @ [h]) * tensor_at (weight l2) [k, h]) + ?b2 k =
        (\<Sum>h\<leftarrow>[0..<?H]. ((\<Sum>c\<leftarrow>[0..<?C]. tensor_at y (p @ [c]) * tensor_at (weight l1) [h, c]) + ?b1 h)
            * tensor_at (weight l2) [k, h]) + ?b2 k"
      by (rule arg_cong [where f = "\<lambda>s. s + ?b2 k"], rule sum_list_upt_cong) (simp only: y1)
    also have "\<dots> =
        (\<Sum>c\<leftarrow>[0..<?C]. tensor_at y (p @ [c]) *
            (\<Sum>h\<leftarrow>[0..<?H]. tensor_at (weight l1) [h, c] * tensor_at (weight l2) [k, h]))
        + ((\<Sum>h\<leftarrow>[0..<?H]. ?b1 h * tensor_at (weight l2) [k, h]) + ?b2 k)"
      by (rule affine_compose)
    also have "\<dots> =
        (\<Sum>c\<leftarrow>[0..<?C]. tensor_at y (p @ [c]) * tensor_at (weight (collapse l1 l2)) [k, c])
        + (case bias (collapse l1 l2) of None \<Rightarrow> 0 | Some b \<Rightarrow> tensor_at b [k])"
      by (simp only: b, rule arg_cong [where f = "\<lambda>s. s + _"], rule sum_list_upt_cong) (simp only: w)
    finally show "(\<Sum>h\<leftarrow>[0..<?H]. tensor_at ?y1 (butlast idx @ [h]) * tensor_at (weight l2) [last idx, h])
               + ?b2 (last idx) =
        (\<Sum>c\<leftarrow>[0..<?C]. tensor_at y (butlast idx @ [c]) * tensor_at (weight (collapse l1 l2)) [last idx, c])
               + (case bias (collapse l1 l2) of None \<Rightarrow> 0 | Some b \<Rightarrow> tensor_at b [last idx])"
      by (simp add: idx cong: option.case_cong)
  qed
  with s1 s2 c show ?thesis
    by simp
qed

lemma unsqueeze_0: "unsqueeze x 0 = Inr (x\<lparr>shape := 1 # shape x\<rparr>)"
  by (simp add: unsqueeze_def)

lemma Linear_ok_collapse: "Linear_ok (collapse l1 l2)"
  by (simp add: Linear_ok_def collapse_def shape_tensor_of tensor_wf_tensor_of)

lemma BondTypeHead_okD:
  assumes "BondTypeHead_ok h"
  obtains l1 l2 where "classifier h = [l1, l2]" "Linear_ok l1" "Linear_ok l2"
    "in_features l1 = c_in h" "out_features l1 = c_hidden h"
    "in_features l2 = c_hidden h" "out_features l2 = no_bond_types h"
  using assms unfolding BondTypeHead_ok_def
  by (auto split: list.splits)

text \<open>
  Claim C9. The classifier of a bond-type head is two chained affine maps
  \<open>c_in \<rightarrow> c_hidden \<rightarrow> no_bond_types\<close> with nothing between them, so a single affine
  map from \<open>c_in\<close> to \<open>no_bond_types\<close> features agrees with the two-stage classifier on
  every input, the failing ones included; \<open>collapse\<close> builds it.
\<close>

theorem BondTypeHead_classifier_collapses:
  fixes h :: "'a::semiring_0 BondTypeHead"
  assumes "BondTypeHead_ok h"
  shows "\<exists>l. Linear_ok l \<and> in_features l = c_in h \<and> out_features l = no_bond_types h \<and>
             (\<forall>y. Sequential_forward (classifier h) y = Linear_forward l y) \<and>
             (\<forall>x. BondTypeHead_forward h x =
                    (case unsqueeze x 0 of Inl e \<Rightarrow> Inl e | Inr y \<Rightarrow> Linear_forward l y))"
proof -
  from assms obtain l1 l2 where c: "classifier h = [l1, l2]"
    and d: "in_features l1 = c_in h" "out_features l1 = c_hidden h"
      "in_features l2 = c_hidden h" "out_features l2 = no_bond_types h"
    by (rule BondTypeHead_okD)
  from d have chain: "out_features l1 = in_features l2"
    by simp
  have e: "Sequential_forward (classifier h) y = Linear_forward (collapse l1 l2) y" for y
    unfolding c using chain by (rule Sequential_two_collapse)
  have "Linear_ok (collapse l1 l2)"
    by (rule Linear_ok_collapse)
  moreover have "in_features (collapse l1 l2) = c_in h" "out_features (collapse l1 l2) = no_bond_types h"
    using d by (simp_all add: collapse_def)
  moreover have "\<forall>x. BondTypeHead_forward h x =
      (case unsqueeze x 0 of Inl e \<Rightarrow> Inl e | Inr y \<Rightarrow> Linear_forward (collapse l1 l2) y)"
    by (simp add: BondTypeHead_forward_def e cong: sum.case_cong)
  ultimately show ?thesis
    using e by blast
qed

theorem BondTypeHead_classifier_collapses_witness:
  "BondTypeHead_ok ex_bond \<and>
   (\<exists>l. Linear_ok l \<and> in_features l = c_in ex_bond \<and> out_features l = no_bond_types ex_bond \<and>
        Linear_forward l \<lparr>shape = [1, 2, 2, 1], data = [1, 2, 3, 4 :: int]\<rparr> =
          Inr \<lparr>shape = [1, 2, 2, 1], data = [56, 73, 90, 107]\<rparr>)"
proof -
  have k: "BondTypeHead_ok ex_bond"
    by (simp add: BondTypeHead_ok_def Linear_ok_def tensor_wf_def ex_bond_def)
  have e: "Sequential_forward (classifier ex_bond) \<lparr>shape = [1, 2, 2, 1], data = [1, 2, 3, 4]\<rparr> =
      Inr \<lparr>shape = [1, 2, 2, 1], data = [56, 73, 90, 107]\<rparr>"
    by code_simp
  from BondTypeHead_classifier_collapses [OF k] e k show ?thesis
    by metis
qed

section \<open>BondTypeHead: the inserted leading axis\<close>

lemma BondTypeHead_forward_shape_pre:
  assumes "BondTypeHead_ok h" and s: "shape x = bs @ [c_in h]"
  shows "\<exists>r. BondTypeHead_forward h x = Inr r \<and> shape r = 1 # bs @ [no_bond_types h]"
proof -
  from assms(1) obtain l1 l2 where c: "classifier h = [l1, l2]"
    and d: "in_features l1 = c_in h" "out_features l1 = c_hidden h"
      "in_features l2 = c_hidden h" "out_features l2 = no_bond_types h"
    by (rule BondTypeHead_okD)
  let ?y = "x\<lparr>shape := 1 # shape x\<rparr>"
  have "shape ?y = (1 # bs) @ [in_features l1]"
    by (simp add: s d)
  from Linear_forward_shape [OF this] obtain y1 where y1: "Linear_forward l1 ?y = Inr y1"
    and "shape y1 = (1 # bs) @ [out_features l1]"
    by (auto simp: shape_tensor_of)
  then have "shape y1 = (1 # bs) @ [in_features l2]"
    by (simp add: d)
  from Linear_forward_shape [OF this] obtain y2 where y2: "Linear_forward l2 y1 = Inr y2"
    and s2: "shape y2 = (1 # bs) @ [out_features l2]"
    by (auto simp: shape_tensor_of)
  have "BondTypeHead_forward h x = Inr y2"
    unfolding BondTypeHead_forward_def unsqueeze_0 c
    by (simp only: Sequential_forward.simps y1 y2 sum.case)
  with s2 show ?thesis
    by (simp add: d)
qed

text \<open>
  Claim C5. \<open>BondTypeHead_forward\<close> puts a new leading axis of size 1 on its input before
  the classifier runs. An input of shape \<open>(N, N, c_in)\<close> gives an output of shape
  \<open>(1, N, N, no_bond_types)\<close>, and every output for an input that has a feature axis
  keeps the inserted axis in front of the input's own leading axes.
\<close>

theorem BondTypeHead_forward_shape:
  assumes "BondTypeHead_ok h"
  shows "(shape x = [n, n, c_in h] \<longrightarrow>
            (\<exists>r. BondTypeHead_forward h x = Inr r \<and> shape r = [1, n, n, no_bond_types h])) \<and>
         (\<forall>r. shape x \<noteq> [] \<longrightarrow> BondTypeHead_forward h x = Inr r \<longrightarrow>
            shape r = 1 # butlast (shape x) @ [no_bond_types h])"
proof (intro conjI impI allI)
  assume "shape x = [n, n, c_in h]"
  then have "shape x = [n, n] @ [c_in h]"
    by simp
  from BondTypeHead_forward_shape_pre [OF assms this]
  show "\<exists>r. BondTypeHead_forward h x = Inr r \<and> shape r = [1, n, n, no_bond_types h]"
    by simp
next
  fix r
  assume ne: "shape x \<noteq> []" and r: "BondTypeHead_forward h x = Inr r"
  from assms obtain l1 l2 where c: "classifier h = [l1, l2]"
    and d: "in_features l1 = c_in h"
    by (rule BondTypeHead_okD)
  from r obtain y1 where "Linear_forward l1 (x\<lparr>shape := 1 # shape x\<rparr>) = Inr y1"
    by (auto simp: BondTypeHead_forward_def unsqueeze_0 c split: sum.splits)
  from Linear_forward_Inr [OF this] ne have "last (shape x) = c_in h"
    by (simp add: d) (metis last_snoc)
  with append_butlast_last_id [OF ne] have "shape x = butlast (shape x) @ [c_in h]"
    by simp
  from BondTypeHead_forward_shape_pre [OF assms this] r
  show "shape r = 1 # butlast (shape x) @ [no_bond_types h]"
    by auto
qed

theorem BondTypeHead_forward_shape_witness:
  "BondTypeHead_ok ex_bond \<and> shape ex_pair = [2, 2, c_in ex_bond] \<and> shape ex_pair \<noteq> [] \<and>
   BondTypeHead_forward ex_bond ex_pair = Inr \<lparr>shape = [1, 2, 2, 1], data = [56, 73, 90, 107]\<rparr> \<and>
   shape \<lparr>shape = [1, 2, 2, 1], data = [56, 73, 90, 107 :: int]\<rparr> =
     1 # butlast (shape ex_pair) @ [no_bond_types ex_bond]"
proof -
  have k: "BondTypeHead_ok ex_bond"
    by (simp add: BondTypeHead_ok_def Linear_ok_def tensor_wf_def ex_bond_def)
  have s: "shape ex_pair = [2, 2, c_in ex_bond]"
    by (simp add: ex_pair_def ex_bond_def)
  have e: "BondTypeHead_forward ex_bond ex_pair = Inr \<lparr>shape = [1, 2, 2, 1], data = [56, 73, 90, 107]\<rparr>"
    by code_simp
  from BondTypeHead_forward_shape [OF k, of ex_pair 2] s e k show ?thesis
    by auto
qed

section \<open>PairwiseHead\<close>

lemma BondTypeHead_ok_init: "BondTypeHead_ok (BondTypeHead_init hb i1 i2 cz ch nbt)"
  by (simp add: BondTypeHead_ok_def BondTypeHead_init_def Linear_ok_init)
    (simp add: Linear_init_def)

lemma PairwiseHead_ok_init: "PairwiseHead_ok (PairwiseHead_init hb i1 i2 cz nbt nb br)"
  by (simp add: PairwiseHead_ok_def PairwiseHead_init_def DistogramHead_ok_init BondTypeHead_ok_init)
    (simp add: BondTypeHead_init_def DistogramHead_init_def)

lemma PairwiseHead_init_forward_returns:
  fixes x :: "'a::semiring_0 PairFormerOutput"
  assumes s: "shape (z x) = bs @ [n, n, cz]"
  shows "\<exists>d. PairwiseHead_forward (PairwiseHead_init hb i1 i2 cz nbt nb False) x =
              Inr \<lparr>distogram = d, token_bond_type_logits = None\<rparr>"
    and "\<exists>d b. PairwiseHead_forward (PairwiseHead_init hb i1 i2 cz nbt nb True) x =
              Inr \<lparr>distogram = d, token_bond_type_logits = Some b\<rparr>"
proof -
  let ?dh = "DistogramHead_init hb cz nb :: 'a DistogramHead"
  let ?bh = "BondTypeHead_init hb i1 i2 cz 128 nbt :: 'a BondTypeHead"
  have "in_features (linear ?dh) = cz"
    by (simp add: DistogramHead_init_def Linear_init_def)
  with s have "shape (z x) = bs @ [n, n, in_features (linear ?dh)]"
    by simp
  from DistogramHead_forward_returns [OF this] obtain d
    where d: "DistogramHead_forward ?dh (z x) = Inr d"
    by blast
  then show "\<exists>d. PairwiseHead_forward (PairwiseHead_init hb i1 i2 cz nbt nb False) x =
              Inr \<lparr>distogram = d, token_bond_type_logits = None\<rparr>"
    by (simp add: PairwiseHead_forward_def PairwiseHead_init_def)
  have "c_in ?bh = cz"
    by (simp add: BondTypeHead_init_def)
  with s have "shape (z x) = (bs @ [n, n]) @ [c_in ?bh]"
    by simp
  from BondTypeHead_forward_shape_pre [OF BondTypeHead_ok_init this] obtain b
    where b: "BondTypeHead_forward ?bh (z x) = Inr b"
    by blast
  with d show "\<exists>d b. PairwiseHead_forward (PairwiseHead_init hb i1 i2 cz nbt nb True) x =
              Inr \<lparr>distogram = d, token_bond_type_logits = Some b\<rparr>"
    by (simp add: PairwiseHead_forward_def PairwiseHead_init_def)
qed

text \<open>
  Claim C3. A pairwise head constructed with \<^verbatim>\<open>bond_reconstruction=False\<close> has no bond-type
  head at all; one constructed with \<^verbatim>\<open>bond_reconstruction=True\<close> has the bond-type head
  that \<open>BondTypeHead_init\<close> builds; the toggle is stored as given. Whatever the parameters,
  every output that \<open>PairwiseHead_forward\<close> returns has the bond-type field \<open>None\<close> when
  the toggle is false and a tensor when it is true. On a pair embedding of shape
  \<open>(..., N, N, c_z)\<close> both constructed heads do return: the first with the field \<open>None\<close>,
  the second with a tensor in it.
\<close>

theorem PairwiseHead_bond_type_optional:
  fixes p :: "'a::semiring_0 PairwiseHead"
  shows
  "bond_type_head (PairwiseHead_init hb i1 i2 cz nbt nb False :: 'a PairwiseHead) = None \<and>
   bond_type_head (PairwiseHead_init hb i1 i2 cz nbt nb True :: 'a PairwiseHead) =
     Some (BondTypeHead_init hb i1 i2 cz 128 nbt) \<and>
   bond_reconstruction (PairwiseHead_init hb i1 i2 cz nbt nb br :: 'a PairwiseHead) = br \<and>
   (PairwiseHead_forward p inp = Inr out \<longrightarrow>
      (token_bond_type_logits out = None) = (\<not> bond_reconstruction p)) \<and>
   (shape (z x) = bs @ [n, n, cz] \<longrightarrow>
      (\<exists>d. PairwiseHead_forward (PairwiseHead_init hb i1 i2 cz nbt nb False) x =
             Inr \<lparr>distogram = d, token_bond_type_logits = None\<rparr>) \<and>
      (\<exists>d b. PairwiseHead_forward (PairwiseHead_init hb i1 i2 cz nbt nb True) x =
             Inr \<lparr>distogram = d, token_bond_type_logits = Some b\<rparr>))"
proof (intro conjI impI)
  show "bond_type_head (PairwiseHead_init hb i1 i2 cz nbt nb False :: 'a PairwiseHead) = None"
    by (simp add: PairwiseHead_init_def)
  show "bond_type_head (PairwiseHead_init hb i1 i2 cz nbt nb True :: 'a PairwiseHead) =
      Some (BondTypeHead_init hb i1 i2 cz 128 nbt)"
    by (simp add: PairwiseHead_init_def)
  show "bond_reconstruction (PairwiseHead_init hb i1 i2 cz nbt nb br :: 'a PairwiseHead) = br"
    by (simp add: PairwiseHead_init_def)
next
  assume "PairwiseHead_forward p inp = Inr out"
  then show "(token_bond_type_logits out = None) = (\<not> bond_reconstruction p)"
    by (auto simp: PairwiseHead_forward_def split: sum.splits option.splits if_splits)
next
  assume "shape (z x) = bs @ [n, n, cz]"
  then show "\<exists>d. PairwiseHead_forward (PairwiseHead_init hb i1 i2 cz nbt nb False) x =
             Inr \<lparr>distogram = d, token_bond_type_logits = None\<rparr>"
    by (rule PairwiseHead_init_forward_returns)
next
  assume "shape (z x) = bs @ [n, n, cz]"
  then show "\<exists>d b. PairwiseHead_forward (PairwiseHead_init hb i1 i2 cz nbt nb True) x =
             Inr \<lparr>distogram = d, token_bond_type_logits = Some b\<rparr>"
    by (rule PairwiseHead_init_forward_returns)
qed

theorem PairwiseHead_bond_type_optional_witness:
  "shape (z ex_input) = [1] @ [2, 2, 1] \<and>
   bond_type_head (PairwiseHead_init True ex_draw ex_draw 1 3 2 False) = None \<and>
   (\<exists>d. PairwiseHead_forward (PairwiseHead_init True ex_draw ex_draw 1 3 2 False) ex_input =
          Inr \<lparr>distogram = d, token_bond_type_logits = None\<rparr>) \<and>
   bond_type_head (PairwiseHead_init True ex_draw ex_draw 1 3 2 True) =
     Some (BondTypeHead_init True ex_draw ex_draw 1 128 3) \<and>
   (\<exists>out b. PairwiseHead_forward (PairwiseHead_init True ex_draw ex_draw 1 3 2 True) ex_input = Inr out \<and>
          token_bond_type_logits out = Some b \<and>
          bond_reconstruction (PairwiseHead_init True ex_draw ex_draw 1 3 2 True))"
proof -
  have s: "shape (z ex_input) = [1] @ [2, 2, 1]"
    by (simp add: ex_input_def)
  note t = PairwiseHead_bond_type_optional [where hb = True and ?i1.0 = ex_draw and ?i2.0 = ex_draw
      and cz = 1 and nbt = 3 and nb = 2 and x = ex_input and bs = "[1]" and n = 2]
  from t s obtain d b where
    r: "PairwiseHead_forward (PairwiseHead_init True ex_draw ex_draw 1 3 2 True) ex_input =
          Inr \<lparr>distogram = d, token_bond_type_logits = Some b\<rparr>"
    by blast
  from PairwiseHead_bond_type_optional
      [where p = "PairwiseHead_init True ex_draw ex_draw 1 3 2 True" and inp = ex_input
        and out = "\<lparr>distogram = d, token_bond_type_logits = Some b\<rparr>"] r
  have "bond_reconstruction (PairwiseHead_init True ex_draw ex_draw 1 3 2 True)"
    by simp
  with r have "\<exists>out b. PairwiseHead_forward (PairwiseHead_init True ex_draw ex_draw 1 3 2 True) ex_input = Inr out \<and>
          token_bond_type_logits out = Some b \<and>
          bond_reconstruction (PairwiseHead_init True ex_draw ex_draw 1 3 2 True)"
    by auto
  with t s show ?thesis
    by blast
qed

text \<open>
  Claim C10. With \<^verbatim>\<open>bond_reconstruction=True\<close> and an input whose \<^verbatim>\<open>z\<close> has an explicit
  batch axis, shape \<open>(B, N, N, c_z)\<close>, the distogram has shape \<open>(B, N, N, no_bins)\<close> and
  the bond-type logits have shape \<open>(1, B, N, N, no_bond_types)\<close>: one axis more.
\<close>

theorem PairwiseHead_batched_shapes:
  assumes ok: "PairwiseHead_ok p"
    and br: "bond_reconstruction p"
    and s: "shape (z inp) = [B, n, n, c_z (distogram_head p)]"
  shows "\<exists>d b bh. bond_type_head p = Some bh \<and>
           PairwiseHead_forward p inp = Inr \<lparr>distogram = d, token_bond_type_logits = Some b\<rparr> \<and>
           shape d = [B, n, n, no_bins (distogram_head p)] \<and>
           shape b = [1, B, n, n, no_bond_types bh] \<and>
           length (shape b) = length (shape d) + 1"
proof -
  from ok br obtain bh where bh: "bond_type_head p = Some bh" and bok: "BondTypeHead_ok bh"
    and cin: "c_in bh = c_z (distogram_head p)" and dok: "DistogramHead_ok (distogram_head p)"
    by (auto simp: PairwiseHead_ok_def split: option.splits)
  from s have "shape (z inp) = [B] @ [n, n, in_features (linear (distogram_head p))]"
    using dok by (simp add: DistogramHead_ok_def)
  from DistogramHead_forward_returns [OF this] obtain d
    where d: "DistogramHead_forward (distogram_head p) (z inp) = Inr d"
      and sd: "shape d = [B, n, n, no_bins (distogram_head p)]"
    using dok by (auto simp: DistogramHead_ok_def)
  from s have "shape (z inp) = [B, n, n] @ [c_in bh]"
    by (simp add: cin)
  from BondTypeHead_forward_shape_pre [OF bok this] obtain b
    where b: "BondTypeHead_forward bh (z inp) = Inr b"
      and sb: "shape b = [1, B, n, n, no_bond_types bh]"
    by auto
  have "PairwiseHead_forward p inp = Inr \<lparr>distogram = d, token_bond_type_logits = Some b\<rparr>"
    by (simp add: PairwiseHead_forward_def d br bh b)
  with bh sd sb show ?thesis
    by simp
qed

theorem PairwiseHead_batched_shapes_witness:
  "PairwiseHead_ok (ex_pairwise True) \<and> bond_reconstruction (ex_pairwise True) \<and>
   shape (z ex_input) = [1, 2, 2, c_z (distogram_head (ex_pairwise True))] \<and>
   (\<exists>d b bh. bond_type_head (ex_pairwise True) = Some bh \<and>
      PairwiseHead_forward (ex_pairwise True) ex_input =
        Inr \<lparr>distogram = d, token_bond_type_logits = Some b\<rparr> \<and>
      shape d = [1, 2, 2, no_bins (distogram_head (ex_pairwise True))] \<and>
      shape b = [1, 1, 2, 2, no_bond_types bh] \<and>
      length (shape b) = length (shape d) + 1)"
proof -
  have k: "PairwiseHead_ok (ex_pairwise True)"
    by (simp add: PairwiseHead_ok_def DistogramHead_ok_def BondTypeHead_ok_def Linear_ok_def
        tensor_wf_def ex_pairwise_def ex_head_def ex_bond_def)
  have r: "bond_reconstruction (ex_pairwise True)"
    by (simp add: ex_pairwise_def)
  have s: "shape (z ex_input) = [1, 2, 2, c_z (distogram_head (ex_pairwise True))]"
    by (simp add: ex_input_def ex_pairwise_def ex_head_def)
  from PairwiseHead_batched_shapes [OF k r s] k r s show ?thesis
    by blast
qed

end
